theory Spec2Isabelle
  imports Main
begin

section \<open>The template document and Python values\<close>

text \<open>
  The program is the class \<open>UnDocker\<close> of \<open>src/undocker/main.py\<close>. A Python string is a
  \<open>string\<close> (characters are code points below 256). A value that may be \<open>None\<close> is an
  \<open>option\<close>. An exception is the \<open>Inl\<close> of a sum.
\<close>

datatype error = AttributeError | TypeError | ValueError | NameError | IndexError | SystemExit

text \<open>
  An element of the parsed template: its tag, its attribute dictionary and its text
  (\<open>None\<close> when the element has none). \<open>self.tree.find\<close> and \<open>self.tree.findall\<close> are only
  called with plain tag names, which match the children of the root element, so the tree is
  the list of the root's children in document order.
\<close>

record element =
  elem_tag :: string
  attrib :: "string \<rightharpoonup> string"
  elem_text :: "string option"

record undocker =
  tree :: "element list"
  config_labels :: bool

definition etree_find :: "element list \<Rightarrow> string \<Rightarrow> element option" where
  "etree_find t tg = find (\<lambda>e. elem_tag e = tg) t"

definition etree_findall :: "element list \<Rightarrow> string \<Rightarrow> element list" where
  "etree_findall t tg = filter (\<lambda>e. elem_tag e = tg) t"

text \<open>
  A dictionary whose keys and values are strings or \<open>None\<close>: \<open>get("Target")\<close> is a key
  and \<open>get("Default")\<close> is a value, and both are \<open>None\<close> when the attribute is missing.
\<close>

type_synonym pydict = "string option \<rightharpoonup> string option"

text \<open>A dictionary display \<open>{k1: v1, ...}\<close> with string keys, filled from left to right.\<close>

definition dict_display :: "(string \<times> string option) list \<Rightarrow> pydict" where
  "dict_display kvs = foldl (\<lambda>m kv. m(Some (fst kv) \<mapsto> snd kv)) Map.empty kvs"

text \<open>\<open>s.replace(old, new)\<close> for a one-character \<open>old\<close>, the only form the source uses.\<close>

primrec str_replace :: "char \<Rightarrow> string \<Rightarrow> string \<Rightarrow> string" where
  "str_replace old new [] = []"
| "str_replace old new (c # cs) =
     (if c = old then new @ str_replace old new cs else c # str_replace old new cs)"

text \<open>How an f-string prints an attribute that may be missing.\<close>

definition format_str :: "string option \<Rightarrow> string" where
  "format_str v = (case v of None \<Rightarrow> ''None'' | Some s \<Rightarrow> s)"

text \<open>Truth value of a string or \<open>None\<close>, as \<open>if x:\<close> tests it.\<close>

definition truthy :: "string option \<Rightarrow> bool" where
  "truthy v = (case v of None \<Rightarrow> False | Some s \<Rightarrow> s \<noteq> [])"

subsection \<open>\<open>int(x)\<close> on a string or \<open>None\<close>\<close>

text \<open>
  \<open>int\<close> raises \<open>TypeError\<close> on \<open>None\<close>. On a string it skips white space at both ends
  (the ASCII white space of C, and the two spaces above 127), reads an optional sign and then
  decimal digits, where single underscores may stand between digits, and raises
  \<open>ValueError\<close> on anything else. (The interpreter's limit on the number of digits, where
  it has one, also raises \<open>ValueError\<close>; it is left out.)
\<close>

definition int_space :: "char \<Rightarrow> bool" where
  "int_space c =
     (c \<in> set [CHR 0x09, CHR 0x0A, CHR 0x0B, CHR 0x0C, CHR 0x0D, CHR 0x20, CHR 0x85, CHR 0xA0])"

definition isdigit :: "char \<Rightarrow> bool" where
  "isdigit c = (c \<in> set ''0123456789'')"

definition digit_value :: "char \<Rightarrow> int" where
  "digit_value c = int (of_char c) - 48"

definition int_strip :: "string \<Rightarrow> string" where
  "int_strip s = rev (dropWhile int_space (rev (dropWhile int_space s)))"

fun int_digits :: "int \<Rightarrow> string \<Rightarrow> error + int" where
  "int_digits acc [] = Inr acc"
| "int_digits acc (c # cs) =
     (if isdigit c then int_digits (10 * acc + digit_value c) cs
      else if c = CHR ''_'' then
        (case cs of
           [] \<Rightarrow> Inl ValueError
         | d # ds \<Rightarrow> if isdigit d then int_digits acc cs else Inl ValueError)
      else Inl ValueError)"

definition int_unsigned :: "string \<Rightarrow> error + int" where
  "int_unsigned s =
     (case s of
        [] \<Rightarrow> Inl ValueError
      | c # cs \<Rightarrow> if isdigit c then int_digits 0 s else Inl ValueError)"

definition int_of_str :: "string \<Rightarrow> error + int" where
  "int_of_str s =
     (case int_strip s of
        [] \<Rightarrow> Inl ValueError
      | c # cs \<Rightarrow>
          if c = CHR ''-'' then map_sum id uminus (int_unsigned cs)
          else if c = CHR ''+'' then int_unsigned cs
          else int_unsigned (c # cs))"

definition py_int :: "string option \<Rightarrow> error + int" where
  "py_int v = (case v of None \<Rightarrow> Inl TypeError | Some s \<Rightarrow> int_of_str s)"

text \<open>Sequencing of calls that may raise: the first exception ends the evaluation.\<close>

definition bind_err :: "error + 'a \<Rightarrow> ('a \<Rightarrow> error + 'b) \<Rightarrow> error + 'b" where
  "bind_err r f = (case r of Inl e \<Rightarrow> Inl e | Inr x \<Rightarrow> f x)"

section \<open>The Tag Reader: \<open>UnDocker._tag\<close>\<close>

text \<open>
  \<open>self.tree.find(tag)\<close> is \<open>None\<close> when no element has the tag, and reading \<open>.text\<close> of
  \<open>None\<close> raises \<open>AttributeError\<close>.
\<close>

definition tag :: "undocker \<Rightarrow> string \<Rightarrow> error + string" where
  "tag self tg =
     (case etree_find (tree self) tg of
        None \<Rightarrow> Inl AttributeError
      | Some e \<Rightarrow>
          (case elem_text e of
             None \<Rightarrow> Inr []
           | Some t \<Rightarrow> if t \<noteq> [] then Inr t else Inr []))"

section \<open>The Label/Environment Synthesizer\<close>

text \<open>
  \<open>UnDocker._unraid_labels\<close>: a dictionary display whose values are read with \<open>_tag\<close> in
  the order of the display.
\<close>

definition unraid_labels :: "undocker \<Rightarrow> error + pydict" where
  "unraid_labels self =
     bind_err (tag self ''Registry'') (\<lambda>registry.
     bind_err (tag self ''Shell'') (\<lambda>shell.
     bind_err (tag self ''Support'') (\<lambda>support.
     bind_err (tag self ''Project'') (\<lambda>project.
     bind_err (tag self ''Overview'') (\<lambda>overview.
     bind_err (tag self ''Category'') (\<lambda>category.
     bind_err (tag self ''Icon'') (\<lambda>icon.
     bind_err (tag self ''WebUI'') (\<lambda>webui.
     bind_err (tag self ''TemplateURL'') (\<lambda>template.
     bind_err (tag self ''DateInstalled'') (\<lambda>installed.
     bind_err (tag self ''DonateText'') (\<lambda>donate_text.
     bind_err (tag self ''DonateLink'') (\<lambda>donate_link.
     bind_err (tag self ''Requires'') (\<lambda>requires.
     Inr (dict_display
       [(''net.unraid.docker.registry'', Some registry),
        (''net.unraid.docker.shell'', Some shell),
        (''net.unraid.docker.support'', Some support),
        (''net.unraid.docker.project'', Some project),
        (''net.unraid.docker.overview'', Some overview),
        (''net.unraid.docker.category'', Some category),
        (''net.unraid.docker.icon'', Some icon),
        (''net.unraid.docker.webui'', Some webui),
        (''net.unraid.docker.managed'', Some ''compose''),
        (''net.unraid.docker.template'', Some template),
        (''net.unraid.docker.installed'', Some installed),
        (''net.unraid.docker.donate.text'', Some donate_text),
        (''net.unraid.docker.donate.link'', Some donate_link),
        (''net.unraid.docker.requires'', Some requires)]))))))))))))))"

text \<open>\<open>UnDocker._unraid_environment\<close>.\<close>

definition unraid_environment :: "undocker \<Rightarrow> error + pydict" where
  "unraid_environment self =
     bind_err (tag self ''Name'') (\<lambda>host_hostname.
     bind_err (tag self ''Name'') (\<lambda>host_containername.
     Inr (dict_display
       [(''TZ'', Some ''UTC''),
        (''HOST_OS'', Some ''Unraid''),
        (''HOST_HOSTNAME'', Some host_hostname),
        (''HOST_CONTAINERNAME'', Some host_containername)])))"

section \<open>The Extra-Params Parser: \<open>UnDocker._extra_params\<close>\<close>

text \<open>
  \<open>params.split()\<close>: the maximal runs of characters that are not white space, which for
  \<open>str.split\<close> includes the four separator controls \<open>0x1C\<close> to \<open>0x1F\<close>.
\<close>

definition isspace :: "char \<Rightarrow> bool" where
  "isspace c = (c \<in> set [CHR 0x09, CHR 0x0A, CHR 0x0B, CHR 0x0C, CHR 0x0D, CHR 0x1C,
     CHR 0x1D, CHR 0x1E, CHR 0x1F, CHR 0x20, CHR 0x85, CHR 0xA0])"

fun split_from :: "string \<Rightarrow> string \<Rightarrow> string list" where
  "split_from word [] = (if word = [] then [] else [word])"
| "split_from word (c # cs) =
     (if isspace c then (if word = [] then split_from [] cs else word # split_from [] cs)
      else split_from (word @ [c]) cs)"

definition str_split :: "string \<Rightarrow> string list" where
  "str_split s = split_from [] s"

subsection \<open>The library parser of lines 99 to 105\<close>

text \<open>
  A parser is the table of its option strings, each with the action it triggers.
  \<open>argparse.ArgumentParser()\<close> knows the help option only. The model follows the library
  (CPython 3.11).
\<close>

datatype action = HelpAction | StoreAction string

type_synonym parser = "(string \<times> action) list"

definition ArgumentParser :: parser where
  "ArgumentParser = [(''-h'', HelpAction), (''--help'', HelpAction)]"

text \<open>
  \<open>parser.add_argument(x, dest=d)\<close> where \<open>x\<close> is a list of strings, which is what line 104
  passes (\<open>i[0]\<close> is the list of flags, not unpacked). The library looks at \<open>x[0]\<close>: when it
  is not a piece of the prefix character \<open>-\<close>, it takes \<open>x\<close> for the name of a positional
  argument and refuses the keyword \<open>dest\<close> with \<open>ValueError\<close>; otherwise it takes \<open>x\<close> for an
  option string and fails with \<open>TypeError\<close> when it looks the list up in its table. An empty
  list has no \<open>x[0]\<close>. So no call of this form returns.
\<close>

definition add_argument :: "parser \<Rightarrow> string list \<Rightarrow> string \<Rightarrow> error + parser" where
  "add_argument p x dest =
     (case x of
        [] \<Rightarrow> Inl IndexError
      | x0 # xs \<Rightarrow> if x0 = [] \<or> x0 = ''-'' then Inl TypeError else Inl ValueError)"

text \<open>Lines 100 to 103.\<close>

definition known_args :: "(string list \<times> string) list" where
  "known_args = [([''--restart''], ''restart''), ([''--net'', ''--network''], ''networks'')]"

text \<open>Line 104: the list comprehension calls \<open>add_argument\<close> for each item in turn.\<close>

fun add_arguments :: "parser \<Rightarrow> (string list \<times> string) list \<Rightarrow> error + parser" where
  "add_arguments p [] = Inr p"
| "add_arguments p (i # rest) =
     bind_err (add_argument p (fst i) (snd i)) (\<lambda>p'. add_arguments p' rest)"

text \<open>
  How the library reads one argument string: a positional argument, an option string the
  parser does not know, an abbreviation that fits several option strings, or a known option
  with the argument that was attached to it, if any.
\<close>

datatype optional = Positional | Unknown | Ambiguous | Known action "string option"

definition startswith :: "string \<Rightarrow> string \<Rightarrow> bool" where
  "startswith s p = (take (length p) s = p)"

text \<open>The library's pattern for a negative number: \<open>-\<close>digits, or \<open>-\<close>digits\<open>.\<close>digits.\<close>

definition negative_number :: "string \<Rightarrow> bool" where
  "negative_number s =
     (case s of
        [] \<Rightarrow> False
      | c # r \<Rightarrow>
          c = CHR ''-'' \<and>
          ((r \<noteq> [] \<and> list_all isdigit r) \<or>
           (case dropWhile isdigit r of
              [] \<Rightarrow> False
            | d # f \<Rightarrow> d = CHR ''.'' \<and> f \<noteq> [] \<and> list_all isdigit f)))"

definition get_option_tuples :: "parser \<Rightarrow> string \<Rightarrow> (action \<times> string option) list" where
  "get_option_tuples p option_string =
     (if take 1 (drop 1 option_string) = ''-'' then
        (let option_prefix = takeWhile (\<lambda>c. c \<noteq> CHR ''='') option_string;
             explicit_arg =
               (if CHR ''='' \<in> set option_string
                then Some (drop (Suc (length option_prefix)) option_string) else None)
         in map (\<lambda>oa. (snd oa, explicit_arg))
              (filter (\<lambda>oa. startswith (fst oa) option_prefix) p))
      else
        concat (map (\<lambda>oa.
          if fst oa = take 2 option_string then [(snd oa, Some (drop 2 option_string))]
          else if startswith (fst oa) option_string then [(snd oa, None)]
          else []) p))"

definition parse_optional :: "parser \<Rightarrow> string \<Rightarrow> optional" where
  "parse_optional p arg_string =
     (if arg_string = [] then Positional
      else if take 1 arg_string \<noteq> ''-'' then Positional
      else
        (case map_of p arg_string of
           Some a \<Rightarrow> Known a None
         | None \<Rightarrow>
             if length arg_string = 1 then Positional
             else
               (let option_string = takeWhile (\<lambda>c. c \<noteq> CHR ''='') arg_string;
                    explicit_arg = drop (Suc (length option_string)) arg_string
                in case (if CHR ''='' \<in> set arg_string
                         then map_of p option_string else None) of
                     Some a \<Rightarrow> Known a (Some explicit_arg)
                   | None \<Rightarrow>
                       (case get_option_tuples p arg_string of
                          [] \<Rightarrow>
                            if negative_number arg_string then Positional
                            else if CHR '' '' \<in> set arg_string then Positional
                            else Unknown
                        | [t] \<Rightarrow> Known (fst t) (snd t)
                        | _ \<Rightarrow> Ambiguous))))"

text \<open>
  The namespace lists \<open>dest\<close> and value in the order the arguments were added; a value is
  \<open>None\<close> until its option is read.
\<close>

type_synonym namespace = "(string \<times> string option) list"

definition setattr :: "namespace \<Rightarrow> string \<Rightarrow> string \<Rightarrow> namespace" where
  "setattr ns dest v = map (\<lambda>kv. if fst kv = dest then (dest, Some v) else kv) ns"

definition defaults :: "parser \<Rightarrow> namespace" where
  "defaults p =
     map (\<lambda>dest. (dest, None))
       (remdups (concat (map (\<lambda>oa. case snd oa of HelpAction \<Rightarrow> [] | StoreAction dest \<Rightarrow> [dest]) p)))"

text \<open>
  The argument strings are read from left to right. After \<open>--\<close> everything is positional.
  An option that stores a value takes the attached argument, or else the next argument
  string, which must be positional. Positional arguments and unknown options go to the list
  of extras, which \<open>_extra_params\<close> drops. Every failure of the library and the help option
  end in \<open>SystemExit\<close>.
\<close>

fun consume :: "parser \<Rightarrow> string list \<Rightarrow> namespace \<Rightarrow> error + namespace" where
  "consume p [] ns = Inr ns"
| "consume p (a # rest) ns =
     (if a = ''--'' then Inr ns
      else
        (case parse_optional p a of
           Positional \<Rightarrow> consume p rest ns
         | Unknown \<Rightarrow> consume p rest ns
         | Ambiguous \<Rightarrow> Inl SystemExit
         | Known HelpAction explicit_arg \<Rightarrow> Inl SystemExit
         | Known (StoreAction dest) (Some explicit_arg) \<Rightarrow>
             consume p rest (setattr ns dest explicit_arg)
         | Known (StoreAction dest) None \<Rightarrow>
             (case rest of
                [] \<Rightarrow> Inl SystemExit
              | v # rest' \<Rightarrow>
                  if v \<noteq> ''--'' \<and> parse_optional p v = Positional
                  then consume p rest' (setattr ns dest v)
                  else Inl SystemExit)))"

definition parse_known_args :: "parser \<Rightarrow> string list \<Rightarrow> error + namespace" where
  "parse_known_args p args = consume p args (defaults p)"

text \<open>
  The loop of lines 107 to 109 over \<open>docker_args._get_kwargs()\<close>. The name \<open>args\<close> is bound
  nowhere in the module, so the first value that is true raises \<open>NameError\<close> when the key
  of the assignment is evaluated, and nothing is ever stored.
\<close>

fun collect :: "(string \<times> string option) list \<Rightarrow> pydict \<Rightarrow> error + pydict" where
  "collect [] extra_params = Inr extra_params"
| "collect (attr # attrs) extra_params =
     (if truthy (snd attr) then Inl NameError else collect attrs extra_params)"

text \<open>\<open>_extra_params\<close>, lines 99 to 110.\<close>

definition extra_params :: "string \<Rightarrow> error + pydict" where
  "extra_params params =
     bind_err (add_arguments ArgumentParser known_args) (\<lambda>docker_parser.
     bind_err (parse_known_args docker_parser (str_split params)) (\<lambda>docker_args.
     collect docker_args Map.empty))"

section \<open>The Config Entry Classifier: \<open>UnDocker._configs\<close>\<close>

record port =
  target :: int
  published :: int
  protocol :: string

text \<open>The five local collections of \<open>_configs\<close>, in the order lines 118 to 122 create them.\<close>

record collections =
  ports :: "port list"
  volumes :: "string list"
  devices :: "string list"
  environment :: pydict
  labels :: pydict

definition no_collections :: collections where
  "no_collections =
     \<lparr>ports = [], volumes = [], devices = [], environment = Map.empty, labels = Map.empty\<rparr>"

text \<open>\<open>get = config.attrib.get\<close>.\<close>

definition get :: "element \<Rightarrow> string \<Rightarrow> string option" where
  "get config k = attrib config k"

text \<open>Line 126: \<open>.replace\<close> on a missing \<open>Name\<close> raises \<open>AttributeError\<close>.\<close>

definition header :: "element \<Rightarrow> error + string" where
  "header config =
     (case get config ''Name'' of
        None \<Rightarrow> Inl AttributeError
      | Some n \<Rightarrow> Inr (''net.unraid.docker.config.'' @ str_replace CHR '' '' ''_'' n))"

text \<open>
  Lines 129 to 132, the effective value: the text when it is true, else the \<open>Default\<close>
  attribute, on which \<open>.replace\<close> raises \<open>AttributeError\<close> when it is missing.
\<close>

definition config_value :: "element \<Rightarrow> error + string" where
  "config_value config =
     (case (if truthy (elem_text config) then elem_text config else get config ''Default'') of
        None \<Rightarrow> Inl AttributeError
      | Some s \<Rightarrow> Inr (str_replace CHR ''$'' ''$$'' s))"

text \<open>The suffix \<open>(f":{get('Mode')}" if get("Mode") else "")\<close> of lines 147 and 153.\<close>

definition mode_suffix :: "element \<Rightarrow> string" where
  "mode_suffix config =
     (if truthy (get config ''Mode'') then '':'' @ format_str (get config ''Mode'') else [])"

text \<open>Lines 135 to 142.\<close>

definition place_port :: "element \<Rightarrow> string \<Rightarrow> collections \<Rightarrow> error + collections" where
  "place_port config val c =
     (if get config ''Type'' = Some ''Port'' then
        bind_err (py_int (get config ''Target'')) (\<lambda>t.
        bind_err (py_int (Some val)) (\<lambda>p.
        Inr (c\<lparr>ports := ports c @
          [\<lparr>target = t, published = p,
            protocol = (case get config ''Mode'' of
                          None \<Rightarrow> []
                        | Some m \<Rightarrow> if m \<noteq> [] then m else [])\<rparr>]\<rparr>)))
      else Inr c)"

text \<open>Lines 144 to 148.\<close>

definition place_path :: "element \<Rightarrow> string \<Rightarrow> collections \<Rightarrow> collections" where
  "place_path config val c =
     (if get config ''Type'' = Some ''Path''
      then c\<lparr>volumes := volumes c @
             [val @ '':'' @ format_str (get config ''Target'') @ mode_suffix config]\<rparr>
      else c)"

text \<open>Lines 150 to 154.\<close>

definition place_devices :: "element \<Rightarrow> string \<Rightarrow> collections \<Rightarrow> collections" where
  "place_devices config val c =
     (if get config ''Type'' = Some ''Devices''
      then c\<lparr>devices := devices c @
             [val @ '':'' @ format_str (get config ''Target'') @ mode_suffix config]\<rparr>
      else c)"

text \<open>Lines 156 and 157.\<close>

definition place_variable :: "element \<Rightarrow> string \<Rightarrow> collections \<Rightarrow> collections" where
  "place_variable config val c =
     (if get config ''Type'' = Some ''Variable''
      then c\<lparr>environment := (environment c)(get config ''Target'' \<mapsto> Some val)\<rparr>
      else c)"

text \<open>Lines 159 and 160.\<close>

definition place_label :: "element \<Rightarrow> string \<Rightarrow> collections \<Rightarrow> collections" where
  "place_label config val c =
     (if get config ''Type'' = Some ''Label''
      then c\<lparr>labels := (labels c)(get config ''Target'' \<mapsto> Some val)\<rparr>
      else c)"

text \<open>Lines 135 to 160: the five tests on \<open>Type\<close>, one after the other.\<close>

definition place :: "element \<Rightarrow> string \<Rightarrow> collections \<Rightarrow> error + collections" where
  "place config val c =
     bind_err (place_port config val c) (\<lambda>c1.
     Inr (place_label config val
            (place_variable config val (place_devices config val (place_path config val c1)))))"

text \<open>Lines 165 to 173: \<open>labels.update\<close> with the five keys under the header.\<close>

definition config_label_entries :: "string \<Rightarrow> element \<Rightarrow> (string \<times> string option) list" where
  "config_label_entries h config =
     [(h @ ''.default'', get config ''Default''),
      (h @ ''.description'', get config ''Description''),
      (h @ ''.display'', get config ''Display''),
      (h @ ''.required'', get config ''Required''),
      (h @ ''.mask'', get config ''Mask'')]"

definition update_config_labels :: "string \<Rightarrow> element \<Rightarrow> collections \<Rightarrow> collections" where
  "update_config_labels h config c =
     c\<lparr>labels := labels c ++ dict_display (config_label_entries h config)\<rparr>"

text \<open>The body of the loop, lines 125 to 173, for one \<open>Config\<close> element.\<close>

definition config_step :: "bool \<Rightarrow> element \<Rightarrow> collections \<Rightarrow> error + collections" where
  "config_step with_labels config c =
     bind_err (header config) (\<lambda>h.
     bind_err (config_value config) (\<lambda>val.
     bind_err (place config val c) (\<lambda>c'.
     Inr (if with_labels then update_config_labels h config c' else c'))))"

text \<open>The loop of line 124: the first exception ends it.\<close>

fun config_loop :: "bool \<Rightarrow> element list \<Rightarrow> collections \<Rightarrow> error + collections" where
  "config_loop with_labels [] c = Inr c"
| "config_loop with_labels (config # rest) c =
     bind_err (config_step with_labels config c) (\<lambda>c'. config_loop with_labels rest c')"

text \<open>\<open>_configs\<close> with its \<open>return\<close> of line 174.\<close>

definition configs ::
  "undocker \<Rightarrow> error + (port list \<times> string list \<times> pydict \<times> pydict \<times> string list)" where
  "configs self =
     bind_err (config_loop (config_labels self) (etree_findall (tree self) ''Config'')
                 no_collections) (\<lambda>c.
     Inr (ports c, volumes c, environment c, labels c, devices c))"

section \<open>The Service Assembler: \<open>UnDocker.networks\<close> and \<open>UnDocker.services\<close>\<close>

record network =
  external :: bool
  name :: string

definition networks :: "undocker \<Rightarrow> error + (string \<times> network)" where
  "networks self =
     bind_err (tag self ''Network'') (\<lambda>k.
     bind_err (tag self ''Network'') (\<lambda>n.
     Inr (k, \<lparr>external = True, name = n\<rparr>)))"

record service =
  container_name :: string
  image :: string
  privileged :: bool
  service_ports :: "port list"
  service_volumes :: "string list"
  service_environment :: pydict
  service_labels :: pydict
  service_devices :: "string list"
  service_networks :: "string list"
  cpuset :: string
  command :: string

text \<open>
  \<open>services\<close>: line 195 unpacks the tuple of \<open>_configs\<close>, lines 196 and 197 update the two
  dictionaries, and the display of lines 198 to 212 reads the tags from top to bottom.
\<close>

definition services :: "undocker \<Rightarrow> error + (string \<times> service)" where
  "services self =
     bind_err (configs self) (\<lambda>(ports, volumes, environment, labels, devices).
     bind_err (unraid_labels self) (\<lambda>ul.
     bind_err (unraid_environment self) (\<lambda>ue.
     bind_err (tag self ''Name'') (\<lambda>k.
     bind_err (tag self ''Name'') (\<lambda>cn.
     bind_err (tag self ''Repository'') (\<lambda>im.
     bind_err (tag self ''Privileged'') (\<lambda>pr.
     bind_err (tag self ''Network'') (\<lambda>nw.
     bind_err (tag self ''CPUset'') (\<lambda>cp.
     bind_err (tag self ''PostArgs'') (\<lambda>cm.
     Inr (k,
       \<lparr>container_name = cn,
        image = im,
        privileged = (\<not> (pr = ''false'')),
        service_ports = ports,
        service_volumes = volumes,
        service_environment = environment ++ ue,
        service_labels = labels ++ ul,
        service_devices = devices,
        service_networks = [nw],
        cpuset = cp,
        command = cm\<rparr>)))))))))))"

section \<open>The tuple of \<open>_configs\<close> as a sequence of objects\<close>

text \<open>
  A Python tuple holds objects of any type. To speak about the position of a collection in
  the returned tuple, each collection is tagged with what it is.
\<close>

datatype pyobject = PortList "port list" | StrList "string list" | Dict pydict

definition tuple_objects ::
  "port list \<times> string list \<times> pydict \<times> pydict \<times> string list \<Rightarrow> pyobject list" where
  "tuple_objects r =
     (case r of (a, b, c, d, e) \<Rightarrow> [PortList a, StrList b, Dict c, Dict d, StrList e])"

definition configs_objects :: "undocker \<Rightarrow> error + pyobject list" where
  "configs_objects self = map_sum id tuple_objects (configs self)"

text \<open>
  The order that the specification's contract
  \<open>classify(entries, includeExtendedLabels) -> (ports, volumes, environment, devices, labels)\<close>
  gives, over the same final collections.
\<close>

definition classify_spec_order :: "undocker \<Rightarrow> error + pyobject list" where
  "classify_spec_order self =
     bind_err (config_loop (config_labels self) (etree_findall (tree self) ''Config'')
                 no_collections) (\<lambda>c.
     Inr [PortList (ports c), StrList (volumes c), Dict (environment c),
          StrList (devices c), Dict (labels c)])"

section \<open>The label keys of the extended labels\<close>


section \<open>Example templates\<close>

definition text_element :: "string \<Rightarrow> string \<Rightarrow> element" where
  "text_element tg t = \<lparr>elem_tag = tg, attrib = Map.empty, elem_text = Some t\<rparr>"

definition config_element :: "(string \<times> string) list \<Rightarrow> string option \<Rightarrow> element" where
  "config_element attrs t = \<lparr>elem_tag = ''Config'', attrib = map_of attrs, elem_text = t\<rparr>"

text \<open>Every singular tag that \<open>services\<close> reads, except \<open>Privileged\<close>.\<close>

definition singular_tags :: "element list" where
  "singular_tags =
     [text_element ''Name'' ''app'',
      text_element ''Repository'' ''org/app'',
      text_element ''Network'' ''bridge'',
      text_element ''CPUset'' ''0'',
      text_element ''PostArgs'' ''run'',
      text_element ''Registry'' ''https://hub'',
      text_element ''Shell'' ''sh'',
      text_element ''Support'' ''s'',
      text_element ''Project'' ''p'',
      text_element ''Overview'' ''o'',
      text_element ''Category'' ''c'',
      text_element ''Icon'' ''i'',
      text_element ''WebUI'' ''w'',
      text_element ''TemplateURL'' ''t'',
      text_element ''DateInstalled'' ''1'',
      text_element ''DonateText'' ''d'',
      text_element ''DonateLink'' ''l'',
      text_element ''Requires'' ''r'']"

definition template_no_privileged :: undocker where
  "template_no_privileged = \<lparr>tree = singular_tags, config_labels = False\<rparr>"

definition template_only_name :: undocker where
  "template_only_name = \<lparr>tree = [text_element ''Name'' ''app''], config_labels = False\<rparr>"

text \<open>A \<open>Devices\<close> entry and a \<open>Label\<close> entry.\<close>

definition template_device_label :: undocker where
  "template_device_label =
     \<lparr>tree =
        [config_element [(''Name'', ''gpu''), (''Type'', ''Devices''), (''Target'', ''/dev/dri'')]
           (Some ''/dev/dri''),
         config_element [(''Name'', ''tier''), (''Type'', ''Label''), (''Target'', ''foo'')]
           (Some ''bar'')],
      config_labels = False\<rparr>"



text \<open>A \<open>Variable\<close> entry whose text holds a dollar sign.\<close>

definition variable_example :: element where
  "variable_example = config_element
     [(''Name'', ''home''), (''Type'', ''Variable''), (''Target'', ''HOME_DIR''),
      (''Default'', ''/root'')]
     (Some ''$HOME'')"

text \<open>A \<open>Path\<close> entry with no text, \<open>Default="/data"\<close>, \<open>Target="/data"\<close> and no \<open>Mode\<close>.\<close>

definition path_example :: element where
  "path_example = config_element
     [(''Name'', ''data dir''), (''Type'', ''Path''), (''Target'', ''/data''),
      (''Default'', ''/data'')]
     None"


text \<open>An entry with neither text nor \<open>Default\<close>, and a template where it follows a good entry.\<close>

definition no_value_example :: element where
  "no_value_example = config_element
     [(''Name'', ''key''), (''Type'', ''Variable''), (''Target'', ''KEY'')] None"

definition template_no_value :: undocker where
  "template_no_value =
     \<lparr>tree = singular_tags @
        [text_element ''Privileged'' ''false'', path_example, no_value_example],
      config_labels = False\<rparr>"







text \<open>A template with every singular tag and a \<open>Path\<close>, a \<open>Devices\<close> and a \<open>Label\<close> entry.\<close>

definition device_example :: element where
  "device_example = config_element
     [(''Name'', ''gpu''), (''Type'', ''Devices''), (''Target'', ''/dev/dri'')]
     (Some ''/dev/dri'')"

definition label_example :: element where
  "label_example = config_element
     [(''Name'', ''tier''), (''Type'', ''Label''), (''Target'', ''foo'')] (Some ''bar'')"

definition template_all_kinds :: undocker where
  "template_all_kinds =
     \<lparr>tree = singular_tags @
        [text_element ''Privileged'' ''false'', path_example, device_example, label_example],
      config_labels = False\<rparr>"

section \<open>Properties\<close>

subsection \<open>The Tag Reader\<close>

lemma tag_found:
  "etree_find (tree self) tg = Some e \<Longrightarrow>
   tag self tg = Inr (case elem_text e of None \<Rightarrow> [] | Some t \<Rightarrow> t)"
  by (simp add: tag_def split: option.splits)

lemma tag_missing: "etree_find (tree self) tg = None \<Longrightarrow> tag self tg = Inl AttributeError"
  by (simp add: tag_def)

text \<open>
  Claim C1 says that \<open>_tag\<close> returns the empty string for a tag that is absent from the
  template and never raises. In the code \<open>self.tree.find(tag)\<close> is then \<open>None\<close> and reading
  its \<open>.text\<close> raises: on a template whose only element is \<open>Name\<close>, looking up \<open>Privileged\<close>
  ends in \<open>AttributeError\<close>.
\<close>

theorem tag_absent_raises: "tag template_only_name ''Privileged'' = Inl AttributeError"
  by (simp add: tag_def etree_find_def template_only_name_def text_element_def)

subsection \<open>The privileged flag\<close>

lemma services_privileged:
  "services self = Inr (k, svc) \<Longrightarrow>
   \<exists>pr. tag self ''Privileged'' = Inr pr \<and> privileged svc = (pr \<noteq> ''false'')"
  by (auto simp: services_def bind_err_def split: sum.splits prod.splits)

text \<open>
  Claim C2 says that a template without the \<open>Privileged\<close> tag yields \<open>privileged = true\<close>. In
  the code \<open>services\<close> reads the tag with \<open>_tag\<close>, which raises on an absent tag: a template
  that has every other singular tag and no \<open>Privileged\<close> yields no service at all.
\<close>

theorem services_privileged_absent_raises:
  "services template_no_privileged = Inl AttributeError"
  by (simp add: services_def configs_def unraid_labels_def unraid_environment_def
    tag_def etree_find_def etree_findall_def bind_err_def
    template_no_privileged_def singular_tags_def text_element_def)

subsection \<open>The Extra-Params Parser\<close>

lemma add_argument_raises: "\<exists>e. add_argument p x dest = Inl e"
  by (simp add: add_argument_def split: list.splits)

lemma collect_returns_argument: "collect kvs d = Inr m \<Longrightarrow> m = d"
  by (induction kvs) (auto split: if_splits)

text \<open>
  Claim C8 says that \<open>_extra_params\<close> returns a mapping for every input string, with the key
  \<open>restart\<close> for \<open>--restart <value>\<close>. In the code line 104 hands the list of flags to
  \<open>add_argument\<close> together with \<open>dest\<close>, which the library refuses for the first item of
  \<open>known_args\<close>: whatever the input, also \<open>--restart always\<close>, the call ends in \<open>ValueError\<close>
  before anything is parsed.
\<close>

theorem extra_params_raises: "extra_params params = Inl ValueError"
  by (simp add: extra_params_def known_args_def add_argument_def bind_err_def)

subsection \<open>What one pass of the loop does to the collections\<close>








lemma config_loop_append:
  "config_loop wl (xs @ ys) c = bind_err (config_loop wl xs c) (config_loop wl ys)"
  by (induction xs arbitrary: c) (simp_all add: bind_err_def split: sum.splits)






subsection \<open>The order of the returned tuple\<close>

text \<open>
  Claim C9 as stated, with \<open>devices\<close> fourth and \<open>labels\<close> fifth, fails on a template with
  one \<open>Devices\<close> entry and one \<open>Label\<close> entry: the fourth object returned is the
  dictionary of labels.
\<close>

theorem configs_order_counterexample:
  "configs_objects template_device_label \<noteq> classify_spec_order template_device_label"
  by (simp add: configs_objects_def classify_spec_order_def configs_def tuple_objects_def
    template_device_label_def config_element_def etree_findall_def bind_err_def
    config_step_def header_def config_value_def get_def truthy_def place_def place_port_def
    place_path_def place_devices_def place_variable_def place_label_def no_collections_def)

lemma services_collections:
  "services self = Inr (k, svc) \<Longrightarrow>
   \<exists>c ul ue.
     config_loop (config_labels self) (etree_findall (tree self) ''Config'') no_collections
       = Inr c \<and>
     unraid_labels self = Inr ul \<and> unraid_environment self = Inr ue \<and>
     service_ports svc = ports c \<and> service_volumes svc = volumes c \<and>
     service_environment svc = environment c ++ ue \<and>
     service_labels svc = labels c ++ ul \<and> service_devices svc = devices c"
  by (auto simp: services_def configs_def bind_err_def split: sum.splits prod.splits)

text \<open>
  Claim C9, amended: \<open>_configs\<close> returns its five collections as the tuple
  (ports, volumes, environment, labels, devices), in that order, or raises what the loop
  raises; \<open>services\<close> unpacks the tuple in the same order, so that each collection of the
  loop reaches the field of the service that has its name, the two dictionaries updated
  with the synthesized ones.
\<close>

theorem configs_order:
  "configs_objects self =
     bind_err (config_loop (config_labels self) (etree_findall (tree self) ''Config'')
                 no_collections) (\<lambda>c.
     Inr [PortList (ports c), StrList (volumes c), Dict (environment c),
          Dict (labels c), StrList (devices c)]) \<and>
   (\<forall>k svc. services self = Inr (k, svc) \<longrightarrow>
      (\<exists>c ul ue.
         config_loop (config_labels self) (etree_findall (tree self) ''Config'')
           no_collections = Inr c \<and>
         unraid_labels self = Inr ul \<and> unraid_environment self = Inr ue \<and>
         service_ports svc = ports c \<and> service_volumes svc = volumes c \<and>
         service_environment svc = environment c ++ ue \<and>
         service_labels svc = labels c ++ ul \<and> service_devices svc = devices c))"
proof (intro conjI allI impI)
  show "configs_objects self =
     bind_err (config_loop (config_labels self) (etree_findall (tree self) ''Config'')
                 no_collections) (\<lambda>c.
     Inr [PortList (ports c), StrList (volumes c), Dict (environment c),
          Dict (labels c), StrList (devices c)])"
    by (simp add: configs_objects_def configs_def tuple_objects_def bind_err_def
        split: sum.splits)
next
  fix k svc
  assume "services self = Inr (k, svc)"
  then show "\<exists>c ul ue.
         config_loop (config_labels self) (etree_findall (tree self) ''Config'')
           no_collections = Inr c \<and>
         unraid_labels self = Inr ul \<and> unraid_environment self = Inr ue \<and>
         service_ports svc = ports c \<and> service_volumes svc = volumes c \<and>
         service_environment svc = environment c ++ ue \<and>
         service_labels svc = labels c ++ ul \<and> service_devices svc = devices c"
    by (rule services_collections)
qed

lemma findall_all_kinds:
  "etree_findall (tree template_all_kinds) ''Config'' =
     [path_example, device_example, label_example]"
  by (simp add: etree_findall_def template_all_kinds_def singular_tags_def text_element_def
      path_example_def device_example_def label_example_def config_element_def)

lemma loop_all_kinds:
  "map_sum id (\<lambda>c. (ports c, volumes c, devices c, labels c (Some ''foo''),
       labels c (Some ''net.unraid.docker.shell'')))
     (config_loop False [path_example, device_example, label_example] no_collections) =
   Inr ([], [''/data:/data''], [''/dev/dri:/dev/dri''], Some (Some ''bar''), None)"
  by (simp add: config_step_def header_def config_value_def truthy_def get_def place_def
      place_port_def place_path_def place_devices_def place_variable_def place_label_def
      mode_suffix_def format_str_def bind_err_def no_collections_def
      path_example_def device_example_def label_example_def config_element_def)

lemma services_all_kinds: "\<exists>k svc. services template_all_kinds = Inr (k, svc)"
  by (simp add: services_def configs_def unraid_labels_def unraid_environment_def tag_def
      etree_find_def etree_findall_def template_all_kinds_def singular_tags_def
      text_element_def config_element_def path_example_def device_example_def
      label_example_def bind_err_def config_step_def header_def config_value_def truthy_def
      get_def place_def place_port_def place_path_def place_devices_def place_variable_def
      place_label_def no_collections_def)

theorem configs_order_witness:
  "map_sum id (\<lambda>r. (service_ports (snd r), service_volumes (snd r), service_devices (snd r),
       service_labels (snd r) (Some ''foo'')))
     (services template_all_kinds) =
   Inr ([], [''/data:/data''], [''/dev/dri:/dev/dri''], Some (Some ''bar''))"
proof -
  from services_all_kinds obtain k svc where s: "services template_all_kinds = Inr (k, svc)"
    by blast
  with configs_order [of template_all_kinds] obtain c ul where
    loop: "config_loop (config_labels template_all_kinds)
       (etree_findall (tree template_all_kinds) ''Config'') no_collections = Inr c"
    and ul: "unraid_labels template_all_kinds = Inr ul"
    and f: "service_ports svc = ports c" "service_volumes svc = volumes c"
      "service_labels svc = labels c ++ ul" "service_devices svc = devices c"
    by blast
  from loop have "config_loop False [path_example, device_example, label_example]
      no_collections = Inr c"
    by (simp only: findall_all_kinds)
      (simp add: template_all_kinds_def)
  with loop_all_kinds have c: "ports c = []" "volumes c = [''/data:/data'']"
      "devices c = [''/dev/dri:/dev/dri'']" "labels c (Some ''foo'') = Some (Some ''bar'')"
    by simp_all
  from ul have "ul (Some ''foo'') = None"
    by (auto simp: unraid_labels_def bind_err_def dict_display_def split: sum.splits)
  with c f have "service_labels svc (Some ''foo'') = Some (Some ''bar'')"
    by (simp add: map_add_def)
  with s c f show ?thesis by simp
qed

subsection \<open>Port entries\<close>













subsection \<open>The effective value\<close>

lemma str_replace_concat:
  "str_replace old new s = concat (map (\<lambda>ch. if ch = old then new else [ch]) s)"
  by (induction s) simp_all

lemma dollar_count:
  "count_list (str_replace CHR ''$'' ''$$'' s) CHR ''$'' = 2 * count_list s CHR ''$''"
  by (induction s) simp_all

lemma dollar_others:
  "filter (\<lambda>ch. ch \<noteq> CHR ''$'') (str_replace CHR ''$'' ''$$'' s) =
   filter (\<lambda>ch. ch \<noteq> CHR ''$'') s"
  by (induction s) simp_all

lemma config_step_place:
  "header config = Inr h \<Longrightarrow> config_value config = Inr v \<Longrightarrow>
   config_step wl config c =
     bind_err (place config v c) (\<lambda>c'. Inr (if wl then update_config_labels h config c' else c'))"
  by (simp add: config_step_def bind_err_def)

text \<open>
  Claim C4: the effective value is the text when the text is present and not empty, and
  otherwise the \<open>Default\<close> attribute, each dollar sign written twice and every other
  character kept; the typed placement of the entry works on this value.
\<close>

theorem effective_value:
  "(\<forall>t. elem_text config = Some t \<and> t \<noteq> [] \<longrightarrow>
      config_value config =
        Inr (concat (map (\<lambda>ch. if ch = CHR ''$'' then ''$$'' else [ch]) t))) \<and>
   (\<forall>d. (elem_text config = None \<or> elem_text config = Some []) \<and>
        get config ''Default'' = Some d \<longrightarrow>
      config_value config =
        Inr (concat (map (\<lambda>ch. if ch = CHR ''$'' then ''$$'' else [ch]) d))) \<and>
   (\<forall>v. config_value config = Inr v \<longrightarrow>
      (\<exists>s. (if truthy (elem_text config) then elem_text config else get config ''Default'')
             = Some s \<and>
           count_list v CHR ''$'' = 2 * count_list s CHR ''$'' \<and>
           filter (\<lambda>ch. ch \<noteq> CHR ''$'') v = filter (\<lambda>ch. ch \<noteq> CHR ''$'') s)) \<and>
   (\<forall>h v. header config = Inr h \<and> config_value config = Inr v \<longrightarrow>
      config_step wl config c =
        bind_err (place config v c)
          (\<lambda>c'. Inr (if wl then update_config_labels h config c' else c')))"
proof (intro conjI allI impI)
  fix t assume "elem_text config = Some t \<and> t \<noteq> []"
  then show "config_value config =
      Inr (concat (map (\<lambda>ch. if ch = CHR ''$'' then ''$$'' else [ch]) t))"
    by (simp add: config_value_def truthy_def str_replace_concat)
next
  fix d assume "(elem_text config = None \<or> elem_text config = Some []) \<and>
      get config ''Default'' = Some d"
  then show "config_value config =
      Inr (concat (map (\<lambda>ch. if ch = CHR ''$'' then ''$$'' else [ch]) d))"
    by (auto simp: config_value_def truthy_def str_replace_concat)
next
  fix v assume "config_value config = Inr v"
  then show "\<exists>s. (if truthy (elem_text config) then elem_text config
        else get config ''Default'') = Some s \<and>
      count_list v CHR ''$'' = 2 * count_list s CHR ''$'' \<and>
      filter (\<lambda>ch. ch \<noteq> CHR ''$'') v = filter (\<lambda>ch. ch \<noteq> CHR ''$'') s"
    by (auto simp: config_value_def dollar_count dollar_others split: option.splits if_splits)
next
  fix h v assume "header config = Inr h \<and> config_value config = Inr v"
  then show "config_step wl config c =
      bind_err (place config v c)
        (\<lambda>c'. Inr (if wl then update_config_labels h config c' else c'))"
    by (simp add: config_step_place)
qed

theorem effective_value_witness:
  "config_value variable_example = Inr ''$$HOME'' \<and>
   config_value path_example = Inr ''/data'' \<and>
   map_sum id (\<lambda>c. environment c (Some ''HOME_DIR''))
     (config_step False variable_example no_collections) = Inr (Some (Some ''$$HOME''))"
proof -
  have t: "elem_text variable_example = Some ''$HOME'' \<and> ''$HOME'' \<noteq> []"
    by (simp add: variable_example_def config_element_def)
  have d: "(elem_text path_example = None \<or> elem_text path_example = Some []) \<and>
      get path_example ''Default'' = Some ''/data''"
    by (simp add: path_example_def config_element_def get_def)
  have h: "header variable_example = Inr ''net.unraid.docker.config.home''"
    by (simp add: header_def get_def variable_example_def config_element_def)
  from effective_value [of variable_example False no_collections] t
  have v1: "config_value variable_example = Inr ''$$HOME''"
    by simp
  from effective_value [of path_example False no_collections] d
  have v2: "config_value path_example = Inr ''/data''"
    by simp
  from effective_value [of variable_example False no_collections] h v1
  have "config_step False variable_example no_collections =
      bind_err (place variable_example ''$$HOME'' no_collections) (\<lambda>c'. Inr c')"
    by simp
  then have "map_sum id (\<lambda>c. environment c (Some ''HOME_DIR''))
     (config_step False variable_example no_collections) = Inr (Some (Some ''$$HOME''))"
    by (simp add: place_def place_port_def place_path_def place_devices_def
        place_variable_def place_label_def bind_err_def get_def variable_example_def
        config_element_def)
  with v1 v2 show ?thesis by simp
qed

subsection \<open>Path and Devices entries\<close>





subsection \<open>Extended labels\<close>




















subsection \<open>An entry without a value\<close>

lemma no_value_step:
  "elem_text config = None \<or> elem_text config = Some [] \<Longrightarrow> get config ''Default'' = None \<Longrightarrow>
   config_step wl config c = Inl AttributeError"
  by (auto simp: config_step_def header_def config_value_def truthy_def bind_err_def
      split: option.splits)

lemma config_loop_raises:
  "config \<in> set cs \<Longrightarrow> (\<And>c. config_step wl config c = Inl AttributeError) \<Longrightarrow>
   \<exists>e. config_loop wl cs c = Inl e"
  by (induction cs arbitrary: c) (auto simp: bind_err_def split: sum.splits)

lemma configs_raises_services: "configs self = Inl e \<Longrightarrow> services self = Inl e"
  by (simp add: services_def bind_err_def)

text \<open>
  Claim C10: an entry whose text is absent or empty and which has no \<open>Default\<close> attribute
  makes the loop body raise \<open>AttributeError\<close>; a template that contains such an entry gets
  no tuple from \<open>_configs\<close> and no service from \<open>services\<close>, and when the entries before it
  are processed without an exception, the exception is this \<open>AttributeError\<close>.
\<close>

theorem missing_value_aborts:
  assumes "elem_text config = None \<or> elem_text config = Some []"
    and "get config ''Default'' = None"
  shows "config_step wl config c = Inl AttributeError \<and>
    (config \<in> set (etree_findall (tree self) ''Config'') \<longrightarrow>
       (\<exists>e. configs self = Inl e \<and> services self = Inl e)) \<and>
    (\<forall>pre post c1.
       etree_findall (tree self) ''Config'' = pre @ config # post \<and>
       config_loop (config_labels self) pre no_collections = Inr c1 \<longrightarrow>
       configs self = Inl AttributeError \<and> services self = Inl AttributeError)"
proof (intro conjI allI impI)
  show "config_step wl config c = Inl AttributeError"
    using assms by (rule no_value_step)
next
  assume "config \<in> set (etree_findall (tree self) ''Config'')"
  then obtain e where
    "config_loop (config_labels self) (etree_findall (tree self) ''Config'') no_collections = Inl e"
    using config_loop_raises [of config _ "config_labels self"] no_value_step [OF assms]
    by blast
  then have "configs self = Inl e"
    by (simp add: configs_def bind_err_def)
  then show "\<exists>e. configs self = Inl e \<and> services self = Inl e"
    by (blast intro: configs_raises_services)
next
  fix pre post c1
  assume a: "etree_findall (tree self) ''Config'' = pre @ config # post \<and>
       config_loop (config_labels self) pre no_collections = Inr c1"
  have "config_loop (config_labels self) (pre @ config # post) no_collections =
      Inl AttributeError"
    using a no_value_step [OF assms, of "config_labels self" c1]
    by (simp add: config_loop_append bind_err_def)
  with a have "configs self = Inl AttributeError"
    by (simp add: configs_def bind_err_def)
  then show "configs self = Inl AttributeError" "services self = Inl AttributeError"
    by (simp_all add: configs_raises_services)
qed

lemma findall_no_value:
  "etree_findall (tree template_no_value) ''Config'' = [path_example] @ no_value_example # []"
  by (simp add: etree_findall_def template_no_value_def singular_tags_def text_element_def
      path_example_def no_value_example_def config_element_def)

theorem missing_value_aborts_witness:
  "config_step False no_value_example no_collections = Inl AttributeError \<and>
   configs template_no_value = Inl AttributeError \<and>
   services template_no_value = Inl AttributeError"
proof -
  have t: "elem_text no_value_example = None \<or> elem_text no_value_example = Some []"
    by (simp add: no_value_example_def config_element_def)
  have d: "get no_value_example ''Default'' = None"
    by (simp add: get_def no_value_example_def config_element_def)
  have "\<exists>c1. config_loop False [path_example] no_collections = Inr c1"
    by (simp add: config_step_def header_def config_value_def truthy_def get_def place_def
        place_port_def bind_err_def path_example_def config_element_def)
  then obtain c1 where
    "config_loop (config_labels template_no_value) [path_example] no_collections = Inr c1"
    by (auto simp: template_no_value_def)
  with missing_value_aborts [OF t d, of False no_collections template_no_value]
    findall_no_value
  show ?thesis by blast
qed

subsection \<open>Synthesized labels and environment in the service\<close>









end
